theory Spec2Isabelle
  imports Main
begin

section \<open>Errors of the data layer\<close>

text \<open>
  A rejected request of the store carries an error object.  The routes look at two
  things: whether it is an instance of \<^verbatim>\<open>NotFoundError\<close>, and its optional
  \<^verbatim>\<open>errors\<close> array of objects with a \<^verbatim>\<open>detail\<close> text.  What a hook throws is
  such an object, or the \<^verbatim>\<open>TypeError\<close> of the engine when a property of
  \<^verbatim>\<open>undefined\<close> is read.
\<close>

record error_object =
  detail :: string

record adapter_error =
  is_NotFoundError :: bool
  errors :: "error_object list option"

datatype thrown = TypeError | Thrown adapter_error

section \<open>The crate version route\<close>

text \<open>
  The route \<^verbatim>\<open>crate/version\<close> picks the version record to display for a crate and
  a requested version number.  A version and a crate are Ember Data records; only the
  attributes the route reads or writes are kept.  A nullable attribute is an option,
  \<open>None\<close> standing for JavaScript's \<^verbatim>\<open>null\<close>.
\<close>

record version =
  num :: string
  yanked :: bool
  readme_path :: "string option"

record crate =
  name :: string
  max_version :: string
  documentation :: "string option"
  readme :: "string option"
  versions :: "version list"

text \<open>
  \<^verbatim>\<open>params.version_num\<close> arrives from the router as a string (or is missing), and
  line 68 of the route assigns a version record to it, so it is a small union of
  JavaScript values.
\<close>

datatype version_num = Undefined | Str string | Obj version

text \<open>JavaScript truthiness of such a value, and of a nullable string.\<close>

fun truthy :: "version_num \<Rightarrow> bool" where
  "truthy Undefined = False"
| "truthy (Str s) = (s \<noteq> [])"
| "truthy (Obj v) = True"

fun truthy_str :: "string option \<Rightarrow> bool" where
  "truthy_str None = False"
| "truthy_str (Some s) = (s \<noteq> [])"

text \<open>
  Interpolation of \<^verbatim>\<open>params.version_num\<close> into a template string.  A record
  renders through Ember's \<^verbatim>\<open>toString\<close>, whose text carries a run-time identifier;
  the placeholder below stands for it.
\<close>

fun interpolate :: "version_num \<Rightarrow> string" where
  "interpolate Undefined = ''undefined''"
| "interpolate (Str s) = s"
| "interpolate (Obj v) = ''<model:version>''"

text \<open>
  What the route reads and writes: the crate, \<^verbatim>\<open>params.version_num\<close> and the queue
  of the flash-message service.
\<close>

record route_state =
  crate :: crate
  params_version_num :: version_num
  flashMessages :: "string list"

text \<open>
  The outside world.  \<^verbatim>\<open>prerelease\<close> is the function of the \<^verbatim>\<open>semver\<close> package:
  the pre-release identifiers of a version string, or \<^verbatim>\<open>null\<close>.  It is a parameter
  of the model.  \<^verbatim>\<open>ajax\<close> answers a URL with the parsed build list, \<^verbatim>\<open>fetch\<close>
  with a response; \<open>None\<close> is a rejected promise.
\<close>

type_synonym prerelease = "string \<Rightarrow> string list option"

record build =
  build_status :: bool

datatype response = Response (ok: bool) (text_body: "string option")

type_synonym ajax = "string \<Rightarrow> build list option"
type_synonym fetch = "string \<Rightarrow> response option"

definition isUnstableVersion :: "prerelease \<Rightarrow> string \<Rightarrow> bool" where
  "isUnstableVersion prerelease v = (prerelease v \<noteq> None)"

definition fetchCrateDocumentation :: "ajax \<Rightarrow> route_state \<Rightarrow> route_state" where
  "fetchCrateDocumentation ajax s =
     (let c = crate s in
      if \<not> truthy_str (documentation c)
         \<or> (case documentation c of None \<Rightarrow> False
             | Some d \<Rightarrow> take 16 d = ''https://docs.rs/'')
      then
        (let crateName = name c;
             crateVersion = interpolate (params_version_num s)
         in case ajax (''https://docs.rs/crate/'' @ crateName @ ''/'' @ crateVersion
                        @ ''/builds.json'') of
              None \<Rightarrow> s
            | Some r \<Rightarrow>
                (case r of
                   [] \<Rightarrow> s
                 | b # _ \<Rightarrow>
                     if build_status b
                     then s\<lparr>crate := c\<lparr>documentation :=
                            Some (''https://docs.rs/'' @ crateName @ ''/'' @ crateVersion
                                   @ ''/'')\<rparr>\<rparr>
                     else s))
      else s)"

text \<open>
  The callback of lines 45 to 73, run on the loaded versions when \<^verbatim>\<open>max_version\<close>
  is a pre-release.  The inner test of line 64 is written as in the source: it tests
  \<^verbatim>\<open>latestStableVersion\<close> again.
\<close>

definition versions_then :: "prerelease \<Rightarrow> string \<Rightarrow> route_state \<Rightarrow> route_state" where
  "versions_then prerelease maxVersion s =
     (let vs = versions (crate s);
          latestStableVersion =
            find (\<lambda>v. \<not> isUnstableVersion prerelease (num v) \<and> \<not> yanked v) vs
      in case latestStableVersion of
           None \<Rightarrow>
             (let latestUnyankedVersion = find (\<lambda>v. \<not> yanked v) vs
              in if latestStableVersion = None
                 then s\<lparr>params_version_num := Str maxVersion\<rparr>
                 else s\<lparr>params_version_num :=
                         (case latestUnyankedVersion of
                            None \<Rightarrow> Undefined
                          | Some u \<Rightarrow> Obj u)\<rparr>)
         | Some v \<Rightarrow> s\<lparr>params_version_num := Str (num v)\<rparr>)"

text \<open>
  Lines 41 to 81.  The callback on the versions promise is registered before the
  \<^verbatim>\<open>await\<close> of line 94 on the same promise, so it has run when line 96 reads
  \<^verbatim>\<open>params.version_num\<close>; the model runs the steps in that order.
\<close>

definition requested :: "version_num \<Rightarrow> version_num" where
  "requested n = (if n = Str ''all'' then Str [] else n)"

definition select_default :: "prerelease \<Rightarrow> ajax \<Rightarrow> route_state \<Rightarrow> route_state" where
  "select_default prerelease ajax s =
     (let requestedVersion = requested (params_version_num s);
          maxVersion = max_version (crate s)
      in if \<not> truthy requestedVersion \<and> maxVersion \<noteq> ''0.0.0''
         then if isUnstableVersion prerelease maxVersion
              then fetchCrateDocumentation ajax (versions_then prerelease maxVersion s)
              else fetchCrateDocumentation ajax (s\<lparr>params_version_num := Str maxVersion\<rparr>)
         else fetchCrateDocumentation ajax s)"

text \<open>Line 98: the warning queued when the version asked for does not exist.\<close>

definition not_found_message :: "route_state \<Rightarrow> string" where
  "not_found_message s =
     ''Version '' @ [CHR 0x27] @ interpolate (params_version_num s) @ [CHR 0x27]
       @ '' of crate '' @ [CHR 0x27] @ name (crate s) @ [CHR 0x27] @ '' does not exist''"

text \<open>Lines 103 to 115: the README of the selected version, once the fetch has settled.\<close>

definition fetch_readme :: "fetch \<Rightarrow> string \<Rightarrow> crate \<Rightarrow> crate" where
  "fetch_readme fetch path c =
     (case fetch path of
        None \<Rightarrow> c\<lparr>readme := None\<rparr>
      | Some r \<Rightarrow>
          if ok r
          then (case text_body r of
                  Some t \<Rightarrow> c\<lparr>readme := Some t\<rparr>
                | None \<Rightarrow> c\<lparr>readme := None\<rparr>)
          else c\<lparr>readme := None\<rparr>)"

text \<open>\<^verbatim>\<open>versions.objectAt(0)\<close>: the first element, or \<^verbatim>\<open>undefined\<close>.\<close>

fun objectAt0 :: "'a list \<Rightarrow> 'a option" where
  "objectAt0 [] = None"
| "objectAt0 (x # xs) = Some x"

text \<open>
  The route's \<^verbatim>\<open>model\<close> hook.  It returns the selected version, or throws when
  line 103 reads \<^verbatim>\<open>readme_path\<close> of \<^verbatim>\<open>undefined\<close>; the state is returned in both
  cases.  The controller fields and the \<^verbatim>\<open>following\<close> request (lines 83 to 91) touch
  nothing that is read here and are left out.
\<close>

definition model ::
  "prerelease \<Rightarrow> ajax \<Rightarrow> fetch \<Rightarrow> route_state \<Rightarrow> (thrown + version) \<times> route_state" where
  "model prerelease ajax fetch s0 =
     (let maxVersion = max_version (crate s0);
          s1 = select_default prerelease ajax s0;
          vs = versions (crate s1);
          version = find (\<lambda>v. Str (num v) = params_version_num s1) vs;
          s2 = (if truthy (params_version_num s1) \<and> version = None
                then s1\<lparr>flashMessages := flashMessages s1 @ [not_found_message s1]\<rparr>
                else s1);
          result = (case version of
                      Some v \<Rightarrow> Some v
                    | None \<Rightarrow>
                        (case find (\<lambda>v. num v = maxVersion) vs of
                           Some v \<Rightarrow> Some v
                         | None \<Rightarrow> objectAt0 vs))
      in case result of
           None \<Rightarrow> (Inl TypeError, s2)
         | Some r \<Rightarrow>
             (Inr r,
              if truthy_str (readme_path r)
              then (case readme_path r of
                      None \<Rightarrow> s2
                    | Some p \<Rightarrow> s2\<lparr>crate := fetch_readme fetch p (crate s2)\<rparr>)
              else s2))"

text \<open>
  A stand-in for \<^verbatim>\<open>prerelease\<close>, used only to instantiate the parameter in
  examples: build metadata (from the first plus sign on) is cut off, and the
  dot-separated identifiers after the first hyphen of what remains are returned.  It
  agrees with the library on version strings of the forms \<^verbatim>\<open>X.Y.Z\<close>,
  \<^verbatim>\<open>X.Y.Z-pre\<close> and the same followed by \<^verbatim>\<open>+build\<close>; it does not check that
  the string is a version, which the library does (returning \<^verbatim>\<open>null\<close> otherwise).
  The general theorems do not depend on it.
\<close>

fun split_dots :: "string \<Rightarrow> string \<Rightarrow> string list" where
  "split_dots acc [] = [rev acc]"
| "split_dots acc (c # cs) =
     (if c = CHR ''.'' then rev acc # split_dots [] cs else split_dots (c # acc) cs)"

definition hyphen_prerelease :: prerelease where
  "hyphen_prerelease v =
     (case dropWhile (\<lambda>c. c \<noteq> CHR ''-'') (takeWhile (\<lambda>c. c \<noteq> CHR ''+'') v) of
        [] \<Rightarrow> None
      | _ # rest \<Rightarrow> Some (split_dots [] rest))"

section \<open>The pending-invite component\<close>

text \<open>
  The component keeps three flags and a message; the invitation record has the
  tri-state attribute \<^verbatim>\<open>accepted\<close>, \<open>None\<close> while it is pending.
  \<^verbatim>\<open>invite.save()\<close> is the backend's answer for the record being saved.
\<close>

record invite =
  accepted :: "bool option"

record pending_invite =
  isAccepted :: bool
  isDeclined :: bool
  isError :: bool
  inviteError :: string

definition initial_component :: pending_invite where
  "initial_component =
     \<lparr>isAccepted = False, isDeclined = False, isError = False,
      inviteError = ''default error message''\<rparr>"

datatype save_result = Saved | Save_failed adapter_error

type_synonym save = "invite \<Rightarrow> save_result"

text \<open>
  Each action returns what it threw, if anything, with the component and the record as
  it leaves them.  \<^verbatim>\<open>error.errors\<close> is truthy as soon as it is an array, so an empty
  array reaches \<^verbatim>\<open>error.errors[0].detail\<close>, which throws inside the handler.
\<close>

fun acceptInvitation ::
  "save \<Rightarrow> pending_invite \<times> invite \<Rightarrow> thrown option \<times> pending_invite \<times> invite" where
  "acceptInvitation save (this, invite) =
     (let invite = invite\<lparr>accepted := Some True\<rparr>
      in case save invite of
           Saved \<Rightarrow> (None, this\<lparr>isAccepted := True\<rparr>, invite)
         | Save_failed error \<Rightarrow>
             (let this = this\<lparr>isError := True\<rparr>
              in case errors error of
                   Some es \<Rightarrow>
                     (case es of
                        [] \<Rightarrow> (Some TypeError, this, invite)
                      | e # _ \<Rightarrow>
                          (None,
                           this\<lparr>inviteError := ''Error in accepting invite: '' @ detail e\<rparr>,
                           invite))
                 | None \<Rightarrow> (None, this\<lparr>inviteError := ''Error in accepting invite''\<rparr>, invite)))"

fun declineInvitation ::
  "save \<Rightarrow> pending_invite \<times> invite \<Rightarrow> thrown option \<times> pending_invite \<times> invite" where
  "declineInvitation save (this, invite) =
     (let invite = invite\<lparr>accepted := Some False\<rparr>
      in case save invite of
           Saved \<Rightarrow> (None, this\<lparr>isDeclined := True\<rparr>, invite)
         | Save_failed error \<Rightarrow>
             (let this = this\<lparr>isError := True\<rparr>
              in case errors error of
                   Some es \<Rightarrow>
                     (case es of
                        [] \<Rightarrow> (Some TypeError, this, invite)
                      | e # _ \<Rightarrow>
                          (None,
                           this\<lparr>inviteError := ''Error in declining invite: '' @ detail e\<rparr>,
                           invite))
                 | None \<Rightarrow> (None, this\<lparr>inviteError := ''Error in declining invite''\<rparr>, invite)))"

text \<open>
  A user session on one component: a sequence of clicks, each with the answer the
  backend gives to its save.  A throwing action leaves the state it reached.
\<close>

datatype action = Accept | Decline

fun invoke :: "action \<times> save \<Rightarrow> pending_invite \<times> invite \<Rightarrow> pending_invite \<times> invite" where
  "invoke (Accept, save) s = snd (acceptInvitation save s)"
| "invoke (Decline, save) s = snd (declineInvitation save s)"

fun invocations ::
  "(action \<times> save) list \<Rightarrow> pending_invite \<times> invite \<Rightarrow> pending_invite \<times> invite" where
  "invocations [] s = s"
| "invocations (a # as) s = invocations as (invoke a s)"

section \<open>Route models that catch their failures\<close>

text \<open>
  What a \<^verbatim>\<open>model\<close> hook resolves to: a model, the transition returned by
  \<^verbatim>\<open>replaceWith\<close>, or \<^verbatim>\<open>undefined\<close> when the function falls off its end.  The
  hooks also append to the error notifications.
\<close>

datatype 'm resolved = Model 'm | Transition string | Resolved_undefined

record team =
  id_attr :: string

record team_params =
  team_id :: string
  include_yanked :: "string option"
  page :: "string option"
  sort_param :: "string option"

text \<open>The handler of \<^verbatim>\<open>app/routes/team.js\<close>, lines 23 to 28.\<close>

definition team_catch ::
  "adapter_error \<Rightarrow> team_params \<Rightarrow> string list \<Rightarrow> (thrown + 'm resolved) \<times> string list" where
  "team_catch e params notifications =
     (case errors e of
        None \<Rightarrow> (Inl TypeError, notifications)
      | Some es \<Rightarrow>
          if list_ex (\<lambda>e. detail e = ''Not Found'') es
          then (Inr (Transition ''index''),
                notifications @ [''Team '' @ [CHR 0x27] @ team_id params @ [CHR 0x27]
                                  @ '' does not exist''])
          else (Inr Resolved_undefined, notifications))"

definition TeamRoute_model ::
  "(string \<Rightarrow> adapter_error + team) \<Rightarrow> (team_params \<Rightarrow> adapter_error + 'c) \<Rightarrow>
   team_params \<Rightarrow> string list \<Rightarrow> (thrown + ('c \<times> team) resolved) \<times> string list" where
  "TeamRoute_model queryRecord query params notifications =
     (case queryRecord (team_id params) of
        Inl e \<Rightarrow> team_catch e params notifications
      | Inr t \<Rightarrow>
          (let params = params\<lparr>team_id := id_attr t, include_yanked := Some ''n''\<rparr>
           in case query params of
                Inl e \<Rightarrow> team_catch e params notifications
              | Inr crates \<Rightarrow> (Inr (Model (crates, t)), notifications)))"

text \<open>\<^verbatim>\<open>KeywordRoute.model\<close>, lines 24 to 35 of its file.\<close>

definition KeywordRoute_model ::
  "(string \<Rightarrow> adapter_error + 'k) \<Rightarrow> string \<Rightarrow> string list \<Rightarrow>
   (thrown + 'k resolved) \<times> string list" where
  "KeywordRoute_model store_find keyword_id notifications =
     (case store_find keyword_id of
        Inr k \<Rightarrow> (Inr (Model k), notifications)
      | Inl error \<Rightarrow>
          if is_NotFoundError error
          then (Inr (Transition ''index''),
                notifications @ [''Keyword '' @ [CHR 0x27] @ keyword_id @ [CHR 0x27]
                                  @ '' does not exist''])
          else (Inl (Thrown error), notifications))"

section \<open>The crates listing route\<close>

text \<open>
  The query parameters are an object from keys to values; a value of the router is a
  string or \<^verbatim>\<open>null\<close>, and a key may hold \<^verbatim>\<open>undefined\<close>.  Reading a missing key
  gives \<^verbatim>\<open>undefined\<close>.  The hook hands the object to \<^verbatim>\<open>store.query\<close>; the model
  returns that call.
\<close>

datatype query_value = QUndefined | QNull | QStr string

type_synonym query_params = "string \<rightharpoonup> query_value"

fun query_truthy :: "query_value \<Rightarrow> bool" where
  "query_truthy QUndefined = False"
| "query_truthy QNull = False"
| "query_truthy (QStr s) = (s \<noteq> [])"

definition get_param :: "query_params \<Rightarrow> string \<Rightarrow> query_value" where
  "get_param params k = (case params k of None \<Rightarrow> QUndefined | Some v \<Rightarrow> v)"

datatype store_call = Query (model_name: string) (query: query_params)

definition CratesRoute_model :: "query_params \<Rightarrow> store_call" where
  "CratesRoute_model params =
     (let params = (if \<not> query_truthy (get_param params ''letter'')
                    then params(''letter'' := None)
                    else params)
      in Query ''crate'' params)"

section \<open>Crate owners\<close>

text \<open>
  Modelled from the spec: the data of the settings controller, which adds and removes
  owners and is missing from the sources (only its acceptance tests are there).  An
  owner is a user, identified by login, or a team, identified by organisation and
  name.  The backend's reply has an HTTP status and an optional \<^verbatim>\<open>errors\<close> array;
  a request has failed when the status is outside 2xx or when the payload carries
  \<^verbatim>\<open>errors\<close>, which the backend may send with status 200.
\<close>

datatype owner = User string | Team string string

datatype reply = Reply (http_status: nat) (reply_errors: "error_object list option")

definition failed :: "reply \<Rightarrow> bool" where
  "failed r = (\<not> (200 \<le> http_status r \<and> http_status r < 300) \<or> reply_errors r \<noteq> None)"

fun first_detail :: "reply \<Rightarrow> string option" where
  "first_detail (Reply st None) = None"
| "first_detail (Reply st (Some [])) = None"
| "first_detail (Reply st (Some (e # es))) = Some (detail e)"

datatype notification = Success string | Failure string



text \<open>
  Modelled from the spec: \<^verbatim>\<open>addOwner\<close> of the settings controller, which is missing
  from the sources.  It sends an invite request; on success the message is "An invite
  has been sent to <name>" and the local owner list is not modified; on failure the
  message is "Error sending invite: <detail>" with the first structured error's
  detail, or a generic message (a parameter, its text is not given) when there is none.
\<close>

definition addOwner :: "string \<Rightarrow> reply \<Rightarrow> string \<Rightarrow> owner list \<Rightarrow> notification \<times> owner list" where
  "addOwner generic r invited owners =
     (if \<not> failed r
      then (Success (''An invite has been sent to '' @ invited), owners)
      else (case first_detail r of
              Some d \<Rightarrow> (Failure (''Error sending invite: '' @ d), owners)
            | None \<Rightarrow> (Failure generic, owners)))"


section \<open>Example data\<close>

text \<open>
  Concrete crates, requests and backend answers on which the theorems below are
  instantiated.  \<open>visit\<close> is the state in which the version route is entered.
\<close>

definition visit :: "crate \<Rightarrow> version_num \<Rightarrow> route_state" where
  "visit c n = \<lparr>crate = c, params_version_num = n, flashMessages = []\<rparr>"

definition offline_ajax :: ajax where
  "offline_ajax u = None"

definition offline_fetch :: fetch where
  "offline_fetch u = None"

definition readme_server :: fetch where
  "readme_server u =
     (if u = ''/readmes/demo-1.0.0.html''
      then Some (Response True (Some ''<h1>demo</h1>''))
      else Some (Response False (Some ''Not Found'')))"

definition demo_beta :: version where
  "demo_beta = \<lparr>num = ''2.0.0-beta.1'', yanked = False,
                 readme_path = Some ''/readmes/demo-2.0.0-beta.1.html''\<rparr>"

definition demo_yanked :: version where
  "demo_yanked = \<lparr>num = ''1.1.0'', yanked = True, readme_path = None\<rparr>"

definition demo_stable :: version where
  "demo_stable = \<lparr>num = ''1.0.0'', yanked = False,
                   readme_path = Some ''/readmes/demo-1.0.0.html''\<rparr>"

definition demo_crate :: crate where
  "demo_crate = \<lparr>name = ''demo'', max_version = ''2.0.0-beta.1'', documentation = None,
                  readme = Some ''stale'', versions = [demo_beta, demo_yanked, demo_stable]\<rparr>"

text \<open>Two records carrying the same number, the yanked one first.\<close>

definition twin_yanked :: version where
  "twin_yanked = \<lparr>num = ''1.0.0'', yanked = True, readme_path = None\<rparr>"

definition twin_live :: version where
  "twin_live = \<lparr>num = ''1.0.0'', yanked = False, readme_path = None\<rparr>"

definition twin_crate :: crate where
  "twin_crate = \<lparr>name = ''twin'', max_version = ''2.0.0-beta.1'', documentation = None,
                  readme = None, versions = [twin_yanked, twin_live]\<rparr>"

text \<open>
  A crate with pre-releases only; the newest upload, a pre-release of a patch to the
  old line, comes first, and \<^verbatim>\<open>max_version\<close> is the highest number.
\<close>

definition backport_beta :: version where
  "backport_beta = \<lparr>num = ''1.0.1-beta.1'', yanked = False, readme_path = None\<rparr>"

definition next_beta :: version where
  "next_beta = \<lparr>num = ''2.0.0-beta.1'', yanked = False, readme_path = None\<rparr>"

definition beta_crate :: crate where
  "beta_crate = \<lparr>name = ''beta'', max_version = ''2.0.0-beta.1'', documentation = None,
                  readme = None, versions = [backport_beta, next_beta]\<rparr>"

definition empty_crate :: crate where
  "empty_crate = \<lparr>name = ''hollow'', max_version = ''0.0.0'', documentation = None,
                   readme = None, versions = []\<rparr>"

definition pending :: invite where
  "pending = \<lparr>accepted = None\<rparr>"

definition server_down :: adapter_error where
  "server_down = \<lparr>is_NotFoundError = False, errors = None\<rparr>"

definition refused :: adapter_error where
  "refused = \<lparr>is_NotFoundError = False, errors = Some [\<lparr>detail = ''nope''\<rparr>]\<rparr>"

text \<open>A backend that rejects every save with the given error, and one that accepts.\<close>

definition failing :: "adapter_error \<Rightarrow> save" where
  "failing e i = Save_failed e"

definition succeeding :: save where
  "succeeding i = Saved"

definition internal_error :: adapter_error where
  "internal_error =
     \<lparr>is_NotFoundError = False, errors = Some [\<lparr>detail = ''Internal Server Error''\<rparr>]\<rparr>"

definition rejecting :: "adapter_error \<Rightarrow> 'a \<Rightarrow> adapter_error + 'b" where
  "rejecting e x = Inl e"

definition team_visit :: team_params where
  "team_visit = \<lparr>team_id = ''github:org:core'', include_yanked = None, page = None,
                  sort_param = None\<rparr>"

definition listing :: query_params where
  "listing = [''letter'' \<mapsto> QStr [], ''page'' \<mapsto> QStr ''2'', ''sort'' \<mapsto> QStr ''alpha'']"

definition listing_a :: query_params where
  "listing_a = [''letter'' \<mapsto> QStr ''a'', ''page'' \<mapsto> QStr ''2'', ''sort'' \<mapsto> QStr ''alpha'']"

definition nanomsg_owners :: "owner list" where
  "nanomsg_owners = [User ''blabaere'', User ''thehydroimpulse'',
                     Team ''org'' ''blabaere'', Team ''org'' ''thehydroimpulse'']"



definition invite_sent :: reply where
  "invite_sent = Reply 200 None"

lemmas example_defs = visit_def offline_ajax_def offline_fetch_def readme_server_def
  demo_beta_def demo_yanked_def demo_stable_def demo_crate_def twin_yanked_def twin_live_def
  twin_crate_def backport_beta_def next_beta_def beta_crate_def empty_crate_def

lemmas model_defs = model_def select_default_def requested_def versions_then_def
  fetchCrateDocumentation_def isUnstableVersion_def hyphen_prerelease_def
  not_found_message_def fetch_readme_def Let_def

lemmas invite_defs = pending_def server_down_def refused_def failing_def succeeding_def
  initial_component_def

lemmas route_defs = internal_error_def rejecting_def team_visit_def

section \<open>The version route: what each step leaves alone\<close>

lemma fetchCrateDocumentation_frame:
  "params_version_num (fetchCrateDocumentation ajax s) = params_version_num s"
  "flashMessages (fetchCrateDocumentation ajax s) = flashMessages s"
  "versions (crate (fetchCrateDocumentation ajax s)) = versions (crate s)"
  "name (crate (fetchCrateDocumentation ajax s)) = name (crate s)"
  "max_version (crate (fetchCrateDocumentation ajax s)) = max_version (crate s)"
  "readme (crate (fetchCrateDocumentation ajax s)) = readme (crate s)"
  by (simp_all add: fetchCrateDocumentation_def Let_def split: option.splits list.splits)

lemma versions_then_frame:
  "crate (versions_then prerelease m s) = crate s"
  "flashMessages (versions_then prerelease m s) = flashMessages s"
  by (simp_all add: versions_then_def Let_def split: option.splits)

lemma select_default_frame:
  "flashMessages (select_default prerelease ajax s) = flashMessages s"
  "versions (crate (select_default prerelease ajax s)) = versions (crate s)"
  "name (crate (select_default prerelease ajax s)) = name (crate s)"
  "max_version (crate (select_default prerelease ajax s)) = max_version (crate s)"
  "readme (crate (select_default prerelease ajax s)) = readme (crate s)"
  by (simp_all add: select_default_def Let_def fetchCrateDocumentation_frame
      versions_then_frame)

section \<open>The version route: which number is looked up\<close>

lemma versions_then_stable:
  assumes "find (\<lambda>v. \<not> isUnstableVersion prerelease (num v) \<and> \<not> yanked v)
             (versions (crate s)) = Some v"
  shows "params_version_num (versions_then prerelease m s) = Str (num v)"
  using assms by (simp add: versions_then_def)

text \<open>
  When no version is stable and live, the callback always falls back to
  \<^verbatim>\<open>max_version\<close>: the scan for a live version has no effect, and the assignment of
  a record to \<^verbatim>\<open>params.version_num\<close> is never reached.
\<close>

lemma versions_then_no_stable:
  assumes "find (\<lambda>v. \<not> isUnstableVersion prerelease (num v) \<and> \<not> yanked v)
             (versions (crate s)) = None"
  shows "params_version_num (versions_then prerelease m s) = Str m"
  using assms by (simp add: versions_then_def)

lemma versions_then_string:
  "\<exists>n. params_version_num (versions_then prerelease m s) = Str n"
  by (simp add: versions_then_def Let_def split: option.splits)

lemma select_default_unstable:
  assumes "isUnstableVersion prerelease (max_version (crate s))"
    and "max_version (crate s) \<noteq> ''0.0.0''"
    and "\<not> truthy (requested (params_version_num s))"
  shows "params_version_num (select_default prerelease ajax s) =
         params_version_num (versions_then prerelease (max_version (crate s)) s)"
  using assms by (simp add: select_default_def Let_def fetchCrateDocumentation_frame)

lemma select_default_requested:
  assumes "truthy (requested (params_version_num s))"
  shows "params_version_num (select_default prerelease ajax s) = params_version_num s"
  using assms by (simp add: select_default_def Let_def fetchCrateDocumentation_frame)

lemma select_default_ignores_live_scan:
  assumes "isUnstableVersion prerelease (max_version (crate s))"
    and "max_version (crate s) \<noteq> ''0.0.0''"
    and "\<not> truthy (requested (params_version_num s))"
    and "find (\<lambda>v. \<not> isUnstableVersion prerelease (num v) \<and> \<not> yanked v)
           (versions (crate s)) = None"
  shows "params_version_num (select_default prerelease ajax s) = Str (max_version (crate s))"
  using assms by (simp add: select_default_unstable versions_then_no_stable)

lemma select_default_never_record:
  assumes "\<forall>u. params_version_num s \<noteq> Obj u"
  shows "params_version_num (select_default prerelease ajax s) \<noteq> Obj u"
  using assms versions_then_string [of prerelease "max_version (crate s)" s]
  by (auto simp: select_default_def Let_def fetchCrateDocumentation_frame)

lemma empty_request:
  "n \<in> {Undefined, Str [], Str ''all''} \<Longrightarrow> \<not> truthy (requested n)"
  by (auto simp: requested_def)

lemma find_num_distinct:
  "distinct (map num vs) \<Longrightarrow> v \<in> set vs \<Longrightarrow> find (\<lambda>w. num w = num v) vs = Some v"
  by (induction vs) (auto simp: image_iff)

lemma model_found:
  assumes "params_version_num (select_default prerelease ajax s) = Str n"
    and "find (\<lambda>w. num w = n) (versions (crate s)) = Some r"
  shows "fst (model prerelease ajax fetch s) = Inr r"
    and "flashMessages (snd (model prerelease ajax fetch s)) = flashMessages s"
  using assms
  by (simp_all add: model_def Let_def select_default_frame split: option.splits)

lemma model_not_found:
  assumes "params_version_num (select_default prerelease ajax s) = Str n"
    and "find (\<lambda>w. num w = n) (versions (crate s)) = None"
    and "n \<noteq> []"
  shows "fst (model prerelease ajax fetch s) =
           (case find (\<lambda>v. num v = max_version (crate s)) (versions (crate s)) of
              Some v \<Rightarrow> Inr v
            | None \<Rightarrow> (case versions (crate s) of [] \<Rightarrow> Inl TypeError | v # _ \<Rightarrow> Inr v))"
    and "flashMessages (snd (model prerelease ajax fetch s)) =
           flashMessages s @ [not_found_message (select_default prerelease ajax s)]"
  using assms
  by (simp_all add: model_def Let_def select_default_frame split: option.splits list.splits)

lemma find_num_first:
  "v \<in> set vs \<Longrightarrow> \<exists>r. find (\<lambda>w. num w = num v) vs = Some r \<and> num r = num v"
  by (induction vs) auto

section \<open>The version route: default selection\<close>

text \<open>
  With a pre-release \<^verbatim>\<open>max_version\<close>, an empty request and a stable live version
  \<open>v\<close> found by the scan, the route returns the first version that carries the
  number of \<open>v\<close>; its number is stable, whatever the collection.
\<close>

lemma model_selects_number_of_stable_live:
  assumes "isUnstableVersion prerelease (max_version (crate s))"
    and "max_version (crate s) \<noteq> ''0.0.0''"
    and "\<not> truthy (requested (params_version_num s))"
    and "find (\<lambda>v. \<not> isUnstableVersion prerelease (num v) \<and> \<not> yanked v)
           (versions (crate s)) = Some v"
  shows "\<exists>r. fst (model prerelease ajax fetch s) = Inr r
           \<and> find (\<lambda>w. num w = num v) (versions (crate s)) = Some r
           \<and> num r = num v \<and> \<not> isUnstableVersion prerelease (num r)"
proof -
  from assms(4) have v: "v \<in> set (versions (crate s))"
      "\<not> isUnstableVersion prerelease (num v)"
    by (auto simp: find_Some_iff)
  from find_num_first [OF v(1)] obtain r
    where r: "find (\<lambda>w. num w = num v) (versions (crate s)) = Some r" "num r = num v"
    by blast
  from assms have "params_version_num (select_default prerelease ajax s) = Str (num v)"
    by (simp add: select_default_unstable versions_then_stable)
  from model_found(1) [OF this r(1)] r v(2) show ?thesis
    by simp
qed

text \<open>
  Claim C1, as the route implements it.  Let \<^verbatim>\<open>max_version\<close> be a pre-release (the
  library reports none for the sentinel \<^verbatim>\<open>0.0.0\<close>), let the request be empty,
  \<^verbatim>\<open>all\<close> or missing, let some version be stable and not yanked, and let the numbers
  of the crate's versions be pairwise distinct.  Then the route selects the first
  version in collection order that is stable and not yanked.  The route looks the
  version up again by its number, so distinct numbers are needed.
\<close>

theorem model_selects_first_stable_live:
  assumes "isUnstableVersion prerelease (max_version (crate s))"
    and "prerelease ''0.0.0'' = None"
    and "params_version_num s \<in> {Undefined, Str [], Str ''all''}"
    and "\<exists>v \<in> set (versions (crate s)). \<not> isUnstableVersion prerelease (num v) \<and> \<not> yanked v"
    and "distinct (map num (versions (crate s)))"
  shows "\<exists>r. fst (model prerelease ajax fetch s) = Inr r
           \<and> find (\<lambda>v. \<not> isUnstableVersion prerelease (num v) \<and> \<not> yanked v)
                (versions (crate s)) = Some r
           \<and> \<not> isUnstableVersion prerelease (num r) \<and> \<not> yanked r"
proof -
  let ?vs = "versions (crate s)"
  let ?P = "\<lambda>v. \<not> isUnstableVersion prerelease (num v) \<and> \<not> yanked v"
  from assms(4) obtain r where r: "find ?P ?vs = Some r"
    by (cases "find ?P ?vs") (auto simp: find_None_iff)
  then have Pr: "?P r" and mem: "r \<in> set ?vs"
    by (auto simp: find_Some_iff)
  from assms(1,2) have "max_version (crate s) \<noteq> ''0.0.0''"
    by (auto simp: isUnstableVersion_def)
  with assms(1) empty_request [OF assms(3)] r
  have "params_version_num (select_default prerelease ajax s) = Str (num r)"
    by (simp add: select_default_unstable versions_then_stable)
  moreover from assms(5) mem have "find (\<lambda>w. num w = num r) ?vs = Some r"
    by (rule find_num_distinct)
  ultimately have "fst (model prerelease ajax fetch s) = Inr r"
    by (rule model_found)
  with r Pr show ?thesis by blast
qed

theorem model_selects_first_stable_live_witness:
  "isUnstableVersion hyphen_prerelease (max_version (crate (visit demo_crate (Str ''all''))))
   \<and> hyphen_prerelease ''0.0.0'' = None
   \<and> params_version_num (visit demo_crate (Str ''all'')) = Str ''all''
   \<and> demo_stable \<in> set (versions (crate (visit demo_crate (Str ''all''))))
   \<and> \<not> isUnstableVersion hyphen_prerelease (num demo_stable) \<and> \<not> yanked demo_stable
   \<and> distinct (map num (versions (crate (visit demo_crate (Str ''all'')))))
   \<and> fst (model hyphen_prerelease offline_ajax readme_server (visit demo_crate (Str ''all'')))
       = Inr demo_stable"
proof -
  let ?s = "visit demo_crate (Str ''all'')"
  have h1: "isUnstableVersion hyphen_prerelease (max_version (crate ?s))"
    by (simp add: example_defs isUnstableVersion_def hyphen_prerelease_def)
  have h2: "hyphen_prerelease ''0.0.0'' = None"
    by (simp add: hyphen_prerelease_def)
  have p: "params_version_num ?s = Str ''all''"
    by (simp add: visit_def)
  then have h3: "params_version_num ?s \<in> {Undefined, Str [], Str ''all''}"
    by simp
  have st: "demo_stable \<in> set (versions (crate ?s))
      \<and> \<not> isUnstableVersion hyphen_prerelease (num demo_stable) \<and> \<not> yanked demo_stable"
    by (simp add: example_defs isUnstableVersion_def hyphen_prerelease_def)
  then have h4: "\<exists>v \<in> set (versions (crate ?s)).
      \<not> isUnstableVersion hyphen_prerelease (num v) \<and> \<not> yanked v"
    by blast
  have h5: "distinct (map num (versions (crate ?s)))"
    by (simp add: example_defs)
  have f: "find (\<lambda>v. \<not> isUnstableVersion hyphen_prerelease (num v) \<and> \<not> yanked v)
             (versions (crate ?s)) = Some demo_stable"
    by (simp add: example_defs isUnstableVersion_def hyphen_prerelease_def)
  from model_selects_first_stable_live [OF h1 h2 h3 h4 h5, of offline_ajax readme_server] f
  have "fst (model hyphen_prerelease offline_ajax readme_server ?s) = Inr demo_stable"
    by auto
  with h1 h2 p st h5 show ?thesis by blast
qed

text \<open>
  Without distinct numbers the claim fails: when a yanked record with the number of
  the first stable live version comes earlier in the collection, the lookup by number
  returns the yanked record.
\<close>

theorem model_twin_number_selects_yanked:
  "isUnstableVersion hyphen_prerelease (max_version twin_crate)
   \<and> twin_live \<in> set (versions twin_crate)
   \<and> \<not> isUnstableVersion hyphen_prerelease (num twin_live) \<and> \<not> yanked twin_live
   \<and> fst (model hyphen_prerelease offline_ajax offline_fetch (visit twin_crate (Str [])))
       = Inr twin_yanked
   \<and> yanked twin_yanked"
  by (simp add: example_defs model_defs)

text \<open>
  Claim C2 says that, with a pre-release \<^verbatim>\<open>max_version\<close> and no stable live
  version, the first live version in collection order is selected rather than the one
  matching \<^verbatim>\<open>max_version\<close>.  The route does the opposite: on a crate whose two
  versions are live pre-releases, the first live one is \<^verbatim>\<open>1.0.1-beta.1\<close> and the
  route selects \<^verbatim>\<open>2.0.0-beta.1\<close>, the one matching \<^verbatim>\<open>max_version\<close>.
\<close>

theorem model_prereleases_only_selects_max_version:
  "isUnstableVersion hyphen_prerelease (max_version beta_crate)
   \<and> find (\<lambda>v. \<not> isUnstableVersion hyphen_prerelease (num v) \<and> \<not> yanked v)
        (versions beta_crate) = None
   \<and> find (\<lambda>v. \<not> yanked v) (versions beta_crate) = Some backport_beta
   \<and> fst (model hyphen_prerelease offline_ajax offline_fetch (visit beta_crate (Str [])))
       = Inr next_beta
   \<and> next_beta \<noteq> backport_beta"
  by (simp add: example_defs model_defs)

section \<open>The version route: a version that does not exist\<close>

text \<open>
  Claim C3, as the route implements it.  Let the requested number be a non-empty
  string other than \<^verbatim>\<open>all\<close> that no version of the crate carries, and let the
  crate have at least one version.  Then the route queues the warning that the version
  does not exist and returns, without throwing, the version matching
  \<^verbatim>\<open>max_version\<close> if there is one and the first version in collection order
  otherwise.
\<close>

theorem model_unknown_version_warns:
  assumes "params_version_num s = Str n"
    and "n \<noteq> []" and "n \<noteq> ''all''"
    and "n \<notin> num ` set (versions (crate s))"
    and "versions (crate s) \<noteq> []"
  shows "fst (model prerelease ajax fetch s) =
           Inr (case find (\<lambda>v. num v = max_version (crate s)) (versions (crate s)) of
                  Some v \<Rightarrow> v
                | None \<Rightarrow> hd (versions (crate s)))
         \<and> flashMessages (snd (model prerelease ajax fetch s)) =
             flashMessages s @ [''Version '' @ [CHR 0x27] @ n @ [CHR 0x27] @ '' of crate ''
                                 @ [CHR 0x27] @ name (crate s) @ [CHR 0x27]
                                 @ '' does not exist'']"
proof -
  from assms(1-3) have "truthy (requested (params_version_num s))"
    by (simp add: requested_def)
  then have p: "params_version_num (select_default prerelease ajax s) = Str n"
    using assms(1) by (simp add: select_default_requested)
  from assms(4) have nf: "find (\<lambda>w. num w = n) (versions (crate s)) = None"
    by (auto simp: find_None_iff)
  have msg: "not_found_message (select_default prerelease ajax s) =
      ''Version '' @ [CHR 0x27] @ n @ [CHR 0x27] @ '' of crate ''
        @ [CHR 0x27] @ name (crate s) @ [CHR 0x27] @ '' does not exist''"
    using p by (simp add: not_found_message_def select_default_frame)
  from model_not_found [OF p nf assms(2)] assms(5) msg show ?thesis
    by (simp split: option.splits list.splits)
qed

theorem model_unknown_version_warns_witness:
  "params_version_num (visit demo_crate (Str ''3.0.0'')) = Str ''3.0.0''
   \<and> ''3.0.0'' \<noteq> [] \<and> ''3.0.0'' \<noteq> ''all''
   \<and> ''3.0.0'' \<notin> num ` set (versions (crate (visit demo_crate (Str ''3.0.0''))))
   \<and> versions (crate (visit demo_crate (Str ''3.0.0''))) \<noteq> []
   \<and> fst (model hyphen_prerelease offline_ajax offline_fetch (visit demo_crate (Str ''3.0.0'')))
       = Inr demo_beta
   \<and> flashMessages (snd (model hyphen_prerelease offline_ajax offline_fetch
        (visit demo_crate (Str ''3.0.0''))))
       = [''Version '' @ [CHR 0x27] @ ''3.0.0'' @ [CHR 0x27] @ '' of crate ''
           @ [CHR 0x27] @ ''demo'' @ [CHR 0x27] @ '' does not exist'']"
proof -
  let ?s = "visit demo_crate (Str ''3.0.0'')"
  have h1: "params_version_num ?s = Str ''3.0.0''" by (simp add: visit_def)
  have h2: "''3.0.0'' \<noteq> []" and h3: "''3.0.0'' \<noteq> ''all''" by simp_all
  have h4: "''3.0.0'' \<notin> num ` set (versions (crate ?s))" by (simp add: example_defs)
  have h5: "versions (crate ?s) \<noteq> []" by (simp add: example_defs)
  from model_unknown_version_warns
         [OF h1 h2 h3 h4 h5, of hyphen_prerelease offline_ajax offline_fetch] h1 h4 h5
  show ?thesis by (simp add: example_defs)
qed

text \<open>
  On a crate without versions the claim fails: the warning is queued, nothing is
  selected, and the hook throws when it reads the README path of the missing result.
\<close>

theorem model_no_versions_throws:
  "fst (model hyphen_prerelease offline_ajax offline_fetch (visit empty_crate (Str ''1.0.0'')))
     = Inl TypeError
   \<and> flashMessages (snd (model hyphen_prerelease offline_ajax offline_fetch
        (visit empty_crate (Str ''1.0.0''))))
     = [''Version '' @ [CHR 0x27] @ ''1.0.0'' @ [CHR 0x27] @ '' of crate ''
         @ [CHR 0x27] @ ''hollow'' @ [CHR 0x27] @ '' does not exist'']"
  by (simp add: example_defs model_defs)

section \<open>The version route: the README\<close>

text \<open>
  Claim C8.  Whenever the route selects a version whose \<^verbatim>\<open>readme_path\<close> is a
  non-empty string, the crate's \<^verbatim>\<open>readme\<close> after the fetch has settled is the
  fetched text if the response was successful and its body could be read, and
  \<^verbatim>\<open>null\<close> in every other case (a rejected fetch, a non-success status, an
  unreadable body).  The selected version does not depend on the fetch: whatever the
  fetch does, the route returns the same version and does not throw.
\<close>

theorem model_readme:
  assumes "fst (model prerelease ajax fetch s) = Inr r"
    and "readme_path r = Some p" and "p \<noteq> []"
  shows "readme (crate (snd (model prerelease ajax fetch s))) =
           (case fetch p of
              None \<Rightarrow> None
            | Some resp \<Rightarrow> if ok resp then text_body resp else None)
         \<and> fst (model prerelease ajax fetch' s) = Inr r"
  using assms
  by (auto simp: model_def Let_def fetch_readme_def split: option.splits if_splits)

theorem model_readme_witness:
  "fst (model hyphen_prerelease offline_ajax readme_server (visit demo_crate (Str ''1.0.0'')))
     = Inr demo_stable
   \<and> readme_path demo_stable = Some ''/readmes/demo-1.0.0.html''
   \<and> ''/readmes/demo-1.0.0.html'' \<noteq> []
   \<and> readme (crate (snd (model hyphen_prerelease offline_ajax readme_server
        (visit demo_crate (Str ''1.0.0''))))) = Some ''<h1>demo</h1>''
   \<and> fst (model hyphen_prerelease offline_ajax offline_fetch (visit demo_crate (Str ''1.0.0'')))
     = Inr demo_stable
   \<and> fst (model hyphen_prerelease offline_ajax readme_server
        (visit demo_crate (Str ''2.0.0-beta.1''))) = Inr demo_beta
   \<and> readme (crate (snd (model hyphen_prerelease offline_ajax readme_server
        (visit demo_crate (Str ''2.0.0-beta.1''))))) = None"
proof -
  let ?s = "visit demo_crate (Str ''1.0.0'')"
  let ?t = "visit demo_crate (Str ''2.0.0-beta.1'')"
  have h1: "fst (model hyphen_prerelease offline_ajax readme_server ?s) = Inr demo_stable"
    by (simp add: example_defs model_defs)
  have h2: "readme_path demo_stable = Some ''/readmes/demo-1.0.0.html''"
    by (simp add: demo_stable_def)
  have h3: "''/readmes/demo-1.0.0.html'' \<noteq> []" by simp
  have k1: "fst (model hyphen_prerelease offline_ajax readme_server ?t) = Inr demo_beta"
    by (simp add: example_defs model_defs)
  have k2: "readme_path demo_beta = Some ''/readmes/demo-2.0.0-beta.1.html''"
    by (simp add: demo_beta_def)
  have k3: "''/readmes/demo-2.0.0-beta.1.html'' \<noteq> []" by simp
  from model_readme [OF h1 h2 h3, of offline_fetch] model_readme [OF k1 k2 k3, of offline_fetch]
    h1 h2 k1
  show ?thesis
    by (simp add: readme_server_def)
qed

section \<open>The pending-invite component: failure and retry\<close>

text \<open>
  Claim C4, as the component implements it.  When the save of an accepted or declined
  invitation is rejected with an error whose \<^verbatim>\<open>errors\<close> is absent or a non-empty
  array, the action does not throw; the invitation's \<^verbatim>\<open>accepted\<close> field holds the
  answer that was attempted (it is set before the save and not rolled back);
  \<^verbatim>\<open>isError\<close> is true while \<^verbatim>\<open>isAccepted\<close> and \<^verbatim>\<open>isDeclined\<close> keep their
  values; and the message is the generic text followed by the first error's detail,
  or the generic text alone when \<^verbatim>\<open>errors\<close> is absent.
\<close>

theorem respond_failure:
  assumes "errors e \<noteq> Some []"
  shows "(save (invite\<lparr>accepted := Some True\<rparr>) = Save_failed e \<longrightarrow>
            acceptInvitation save (this, invite) =
              (None,
               this\<lparr>isError := True,
                    inviteError :=
                      (case errors e of
                         None \<Rightarrow> ''Error in accepting invite''
                       | Some es \<Rightarrow> ''Error in accepting invite: '' @ detail (hd es))\<rparr>,
               invite\<lparr>accepted := Some True\<rparr>))
       \<and> (save (invite\<lparr>accepted := Some False\<rparr>) = Save_failed e \<longrightarrow>
            declineInvitation save (this, invite) =
              (None,
               this\<lparr>isError := True,
                    inviteError :=
                      (case errors e of
                         None \<Rightarrow> ''Error in declining invite''
                       | Some es \<Rightarrow> ''Error in declining invite: '' @ detail (hd es))\<rparr>,
               invite\<lparr>accepted := Some False\<rparr>))"
  using assms by (simp add: Let_def split: option.splits list.splits)

theorem respond_failure_witness:
  "errors refused \<noteq> Some []
   \<and> failing refused (pending\<lparr>accepted := Some True\<rparr>) = Save_failed refused
   \<and> acceptInvitation (failing refused) (initial_component, pending) =
       (None,
        initial_component\<lparr>isError := True, inviteError := ''Error in accepting invite: nope''\<rparr>,
        \<lparr>accepted = Some True\<rparr>)
   \<and> failing refused (pending\<lparr>accepted := Some False\<rparr>) = Save_failed refused
   \<and> declineInvitation (failing refused) (initial_component, pending) =
       (None,
        initial_component\<lparr>isError := True, inviteError := ''Error in declining invite: nope''\<rparr>,
        \<lparr>accepted = Some False\<rparr>)"
proof -
  have h: "errors refused \<noteq> Some []" by (simp add: refused_def)
  have f: "failing refused (pending\<lparr>accepted := Some True\<rparr>) = Save_failed refused"
      "failing refused (pending\<lparr>accepted := Some False\<rparr>) = Save_failed refused"
    by (simp_all add: failing_def)
  from respond_failure [OF h, of "failing refused" pending initial_component] f h
  show ?thesis
    by (simp add: refused_def pending_def)
qed

text \<open>
  The field does not keep its prior value: a pending invitation whose acceptance
  fails to save is left with \<^verbatim>\<open>accepted\<close> true.
\<close>

theorem acceptInvitation_failure_changes_accepted:
  "failing server_down (pending\<lparr>accepted := Some True\<rparr>) = Save_failed server_down
   \<and> accepted pending = None
   \<and> accepted (snd (snd (acceptInvitation (failing server_down) (initial_component, pending))))
       = Some True
   \<and> accepted (snd (snd (acceptInvitation (failing server_down) (initial_component, pending))))
       \<noteq> accepted pending"
  by (simp add: invite_defs)

lemma invoke_keeps_flags:
  "isAccepted (fst s) \<Longrightarrow> isAccepted (fst (invoke a s))"
  "isDeclined (fst s) \<Longrightarrow> isDeclined (fst (invoke a s))"
  "isError (fst s) \<Longrightarrow> isError (fst (invoke a s))"
  by (cases a; cases s; rename_tac act sv this i; case_tac act;
      simp add: Let_def split: save_result.splits option.splits list.splits)+

lemma invocations_keep_flags:
  "isAccepted (fst s) \<Longrightarrow> isAccepted (fst (invocations run s))"
  "isDeclined (fst s) \<Longrightarrow> isDeclined (fst (invocations run s))"
  "isError (fst s) \<Longrightarrow> isError (fst (invocations run s))"
  by (induction run arbitrary: s) (simp_all add: invoke_keeps_flags)

lemma failed_invoke_sets_isError:
  "isError (fst (invoke (a, failing e) s))"
  by (cases a; cases s) (simp_all add: failing_def Let_def split: option.splits list.splits)

lemma succeeded_invoke_sets_flag:
  "isAccepted (fst (invoke (Accept, succeeding) s))"
  "isDeclined (fst (invoke (Decline, succeeding) s))"
  by (cases s; simp add: succeeding_def Let_def)+

text \<open>
  Claim C9.  Along any sequence of invocations of the two actions, whatever the
  backend answers, a flag among \<^verbatim>\<open>isAccepted\<close>, \<^verbatim>\<open>isDeclined\<close> and
  \<^verbatim>\<open>isError\<close> that is true stays true.  Hence after an attempt that fails and a
  retry that succeeds, \<^verbatim>\<open>isError\<close> and the flag of the successful action are both
  true: the display states are not mutually exclusive.
\<close>

theorem flags_never_reset:
  "(isAccepted (fst s) \<longrightarrow> isAccepted (fst (invocations run s)))
   \<and> (isDeclined (fst s) \<longrightarrow> isDeclined (fst (invocations run s)))
   \<and> (isError (fst s) \<longrightarrow> isError (fst (invocations run s)))
   \<and> isError (fst (invocations [(a, failing e), (Accept, succeeding)] s))
   \<and> isAccepted (fst (invocations [(a, failing e), (Accept, succeeding)] s))
   \<and> isError (fst (invocations [(a, failing e), (Decline, succeeding)] s))
   \<and> isDeclined (fst (invocations [(a, failing e), (Decline, succeeding)] s))"
proof -
  let ?s1 = "invoke (a, failing e) s"
  have "isError (fst ?s1)"
    by (rule failed_invoke_sets_isError)
  then have err: "isError (fst (invoke (b, succeeding) ?s1))" for b
    by (rule invoke_keeps_flags)
  have retry: "invocations [(a, failing e), (b, succeeding)] s = invoke (b, succeeding) ?s1"
    for b
    by simp
  have "isError (fst (invocations [(a, failing e), (Accept, succeeding)] s))"
    and "isAccepted (fst (invocations [(a, failing e), (Accept, succeeding)] s))"
    and "isError (fst (invocations [(a, failing e), (Decline, succeeding)] s))"
    and "isDeclined (fst (invocations [(a, failing e), (Decline, succeeding)] s))"
    unfolding retry by (rule err succeeded_invoke_sets_flag)+
  with invocations_keep_flags [of s run] show ?thesis
    by blast
qed

theorem flags_never_reset_witness:
  "isAccepted (fst (invocations
       [(Accept, failing refused), (Accept, succeeding), (Decline, succeeding)]
       (initial_component, pending)))
   \<and> isDeclined (fst (invocations
       [(Accept, failing refused), (Accept, succeeding), (Decline, succeeding)]
       (initial_component, pending)))
   \<and> isError (fst (invocations
       [(Accept, failing refused), (Accept, succeeding), (Decline, succeeding)]
       (initial_component, pending)))
   \<and> isAccepted (fst (invocations [(Decline, failing server_down)]
       (invocations [(Accept, failing refused), (Accept, succeeding), (Decline, succeeding)]
         (initial_component, pending))))
   \<and> isDeclined (fst (invocations [(Decline, failing server_down)]
       (invocations [(Accept, failing refused), (Accept, succeeding), (Decline, succeeding)]
         (initial_component, pending))))
   \<and> isError (fst (invocations [(Decline, failing server_down)]
       (invocations [(Accept, failing refused), (Accept, succeeding), (Decline, succeeding)]
         (initial_component, pending))))
   \<and> isError (fst (invocations [(Accept, failing refused), (Accept, succeeding)]
       (initial_component, pending)))
   \<and> isAccepted (fst (invocations [(Accept, failing refused), (Accept, succeeding)]
       (initial_component, pending)))"
proof -
  let ?s = "invocations [(Accept, failing refused), (Accept, succeeding), (Decline, succeeding)]
       (initial_component, pending)"
  have h: "isAccepted (fst ?s)" "isDeclined (fst ?s)" "isError (fst ?s)"
    by (simp_all add: invite_defs)
  from flags_never_reset [of ?s "[(Decline, failing server_down)]" Accept refused] h
  have after: "isAccepted (fst (invocations [(Decline, failing server_down)] ?s))"
      "isDeclined (fst (invocations [(Decline, failing server_down)] ?s))"
      "isError (fst (invocations [(Decline, failing server_down)] ?s))"
    by blast+
  from flags_never_reset [of "(initial_component, pending)" "[]" Accept refused]
  have "isError (fst (invocations [(Accept, failing refused), (Accept, succeeding)]
       (initial_component, pending)))"
    "isAccepted (fst (invocations [(Accept, failing refused), (Accept, succeeding)]
       (initial_component, pending)))"
    by blast+
  with h after show ?thesis by blast
qed

section \<open>Route models: what happens to a failure\<close>

text \<open>The keyword route redirects on a not-found error and re-throws any other.\<close>

lemma KeywordRoute_not_found:
  "store_find k = Inl e \<Longrightarrow> is_NotFoundError e \<Longrightarrow>
   KeywordRoute_model store_find k ns =
     (Inr (Transition ''index''),
      ns @ [''Keyword '' @ [CHR 0x27] @ k @ [CHR 0x27] @ '' does not exist''])"
  by (simp add: KeywordRoute_model_def)

lemma KeywordRoute_rethrows:
  "store_find k = Inl e \<Longrightarrow> \<not> is_NotFoundError e \<Longrightarrow>
   KeywordRoute_model store_find k ns = (Inl (Thrown e), ns)"
  by (simp add: KeywordRoute_model_def)

text \<open>
  The team route redirects when some entry of \<^verbatim>\<open>errors\<close> has the detail
  \<^verbatim>\<open>Not Found\<close>.  Any other error with an \<^verbatim>\<open>errors\<close> array is dropped: the hook
  resolves to \<^verbatim>\<open>undefined\<close> with no notification.  An error without \<^verbatim>\<open>errors\<close>
  makes the handler itself throw.
\<close>

lemma TeamRoute_not_found:
  "queryRecord (team_id params) = Inl e \<Longrightarrow> errors e = Some es \<Longrightarrow>
   \<exists>d \<in> set es. detail d = ''Not Found'' \<Longrightarrow>
   TeamRoute_model queryRecord crates_query params ns =
     (Inr (Transition ''index''),
      ns @ [''Team '' @ [CHR 0x27] @ team_id params @ [CHR 0x27] @ '' does not exist''])"
  by (auto simp: TeamRoute_model_def team_catch_def list_ex_iff)

lemma TeamRoute_unrecognised:
  "queryRecord (team_id params) = Inl e \<Longrightarrow> errors e = Some es \<Longrightarrow>
   \<forall>d \<in> set es. detail d \<noteq> ''Not Found'' \<Longrightarrow>
   TeamRoute_model queryRecord crates_query params ns = (Inr Resolved_undefined, ns)"
  by (auto simp: TeamRoute_model_def team_catch_def list_ex_iff)

lemma TeamRoute_no_errors:
  "queryRecord (team_id params) = Inl e \<Longrightarrow> errors e = None \<Longrightarrow>
   TeamRoute_model queryRecord crates_query params ns = (Inl TypeError, ns)"
  by (simp add: TeamRoute_model_def team_catch_def)

text \<open>
  Claim C7 says that every route model re-throws an error it does not recognise.  On
  a server error that is neither a \<^verbatim>\<open>NotFoundError\<close> nor carries the detail
  \<^verbatim>\<open>Not Found\<close>, the keyword route re-throws the error, and the team route does
  not: it resolves to \<^verbatim>\<open>undefined\<close>, with no notification and no redirect.
\<close>

theorem TeamRoute_drops_server_error:
  "\<not> is_NotFoundError internal_error
   \<and> errors internal_error = Some [\<lparr>detail = ''Internal Server Error''\<rparr>]
   \<and> KeywordRoute_model
        (rejecting internal_error :: string \<Rightarrow> adapter_error + string) ''serde'' []
       = (Inl (Thrown internal_error), [])
   \<and> TeamRoute_model (rejecting internal_error)
        (rejecting internal_error :: team_params \<Rightarrow> adapter_error + string list) team_visit []
       = (Inr Resolved_undefined, [])"
  by (simp add: route_defs KeywordRoute_model_def TeamRoute_model_def team_catch_def)

section \<open>The crates listing: the letter parameter\<close>

text \<open>
  Claim C10.  The hook queries the store for crates.  The query has no \<^verbatim>\<open>letter\<close>
  key when \<^verbatim>\<open>params.letter\<close> is missing, \<^verbatim>\<open>undefined\<close>, \<^verbatim>\<open>null\<close> or the
  empty string, and carries the letter unchanged otherwise; every other key (page,
  sort) is passed through as it came.
\<close>

theorem CratesRoute_model_letter:
  "model_name (CratesRoute_model params) = ''crate''
   \<and> query (CratesRoute_model params) ''letter'' =
       (if params ''letter'' \<in> {None, Some QUndefined, Some QNull, Some (QStr [])}
        then None else params ''letter'')
   \<and> (\<forall>k. k \<noteq> ''letter'' \<longrightarrow> query (CratesRoute_model params) k = params k)"
proof -
  have "query_truthy (get_param params ''letter'') \<longleftrightarrow>
        params ''letter'' \<notin> {None, Some QUndefined, Some QNull, Some (QStr [])}"
  proof (cases "params ''letter''")
    case None
    then show ?thesis by (simp add: get_param_def)
  next
    case (Some v)
    then show ?thesis by (cases v) (simp_all add: get_param_def)
  qed
  then show ?thesis
    by (simp add: CratesRoute_model_def Let_def)
qed

theorem CratesRoute_model_letter_witness:
  "''page'' \<noteq> ''letter'' \<and> ''sort'' \<noteq> ''letter''
   \<and> query (CratesRoute_model listing) ''letter'' = None
   \<and> query (CratesRoute_model listing) ''page'' = Some (QStr ''2'')
   \<and> query (CratesRoute_model listing) ''sort'' = Some (QStr ''alpha'')
   \<and> query (CratesRoute_model listing_a) ''letter'' = Some (QStr ''a'')
   \<and> query (CratesRoute_model listing_a) ''page'' = Some (QStr ''2'')"
proof -
  have n: "''page'' \<noteq> ''letter''" "''sort'' \<noteq> ''letter''" by simp_all
  from CratesRoute_model_letter [of listing] CratesRoute_model_letter [of listing_a] n
  show ?thesis
    by (simp add: listing_def listing_a_def)
qed

section \<open>Crate owners: removing and inviting\<close>




text \<open>
  Claim C6.  A call of \<^verbatim>\<open>addOwner\<close> that succeeds leaves the local owner list as it
  was, and its message is exactly "An invite has been sent to <name>" for the invited
  name.
\<close>

theorem addOwner_success:
  assumes "\<not> failed r"
  shows "addOwner generic r invited owners =
           (Success (''An invite has been sent to '' @ invited), owners)"
  using assms by (simp add: addOwner_def)

theorem addOwner_success_witness:
  "\<not> failed invite_sent
   \<and> addOwner ''Error sending invite'' invite_sent ''iain8'' nanomsg_owners =
       (Success ''An invite has been sent to iain8'', nanomsg_owners)"
proof -
  have h: "\<not> failed invite_sent" by (simp add: invite_sent_def failed_def)
  from addOwner_success [OF h, of "''Error sending invite''" "''iain8''" nanomsg_owners] h
  show ?thesis
    by simp
qed

end
